theory Spec2Isabelle
  imports Complex_Main "HOL-Library.Word"
begin

unbundle bit_operations_syntax

section \<open>The webview adapter of \<^verbatim>\<open>src/windows/webview.cc\<close>\<close>

text \<open>
  The class \<^verbatim>\<open>Webview\<close> is glue between a host and the WebView2 control. Its methods
  are modelled as functions from the object's fields (a record) to the new fields and
  the list of calls the method makes, in the order it makes them. Results of native
  calls are inputs of the model (the record \<open>native\<close>).
\<close>

subsection \<open>Native types\<close>

type_synonym LONG = "32 word"
type_synonym short = "16 word"
type_synonym UINT32 = "32 word"
type_synonym size_t = "64 word"
type_synonym HRESULT = int
type_synonym HCURSOR = "64 word"
type_synonym wstring = "16 word list"

definition S_OK :: HRESULT where
  "S_OK = 0"

record POINT =
  POINT_x :: LONG
  POINT_y :: LONG

record RECT =
  RECT_left :: LONG
  RECT_top :: LONG
  RECT_right :: LONG
  RECT_bottom :: LONG

text \<open>
  The enumerations \<^verbatim>\<open>COREWEBVIEW2_MOUSE_EVENT_KIND\<close> and
  \<^verbatim>\<open>COREWEBVIEW2_MOUSE_EVENT_VIRTUAL_KEYS\<close> of the vendor header \<^verbatim>\<open>WebView2.h\<close>,
  with the values that header gives them. The kind is an integer, since the code also
  casts 0 to it, which is none of its enumerators.
\<close>

type_synonym COREWEBVIEW2_MOUSE_EVENT_KIND = int
type_synonym COREWEBVIEW2_MOUSE_EVENT_VIRTUAL_KEYS = "32 word"

definition COREWEBVIEW2_MOUSE_EVENT_KIND_MOVE :: COREWEBVIEW2_MOUSE_EVENT_KIND where
  "COREWEBVIEW2_MOUSE_EVENT_KIND_MOVE = 0x0200"

definition COREWEBVIEW2_MOUSE_EVENT_KIND_LEFT_BUTTON_DOWN :: COREWEBVIEW2_MOUSE_EVENT_KIND where
  "COREWEBVIEW2_MOUSE_EVENT_KIND_LEFT_BUTTON_DOWN = 0x0201"

definition COREWEBVIEW2_MOUSE_EVENT_KIND_LEFT_BUTTON_UP :: COREWEBVIEW2_MOUSE_EVENT_KIND where
  "COREWEBVIEW2_MOUSE_EVENT_KIND_LEFT_BUTTON_UP = 0x0202"

definition COREWEBVIEW2_MOUSE_EVENT_KIND_RIGHT_BUTTON_DOWN :: COREWEBVIEW2_MOUSE_EVENT_KIND where
  "COREWEBVIEW2_MOUSE_EVENT_KIND_RIGHT_BUTTON_DOWN = 0x0204"

definition COREWEBVIEW2_MOUSE_EVENT_KIND_RIGHT_BUTTON_UP :: COREWEBVIEW2_MOUSE_EVENT_KIND where
  "COREWEBVIEW2_MOUSE_EVENT_KIND_RIGHT_BUTTON_UP = 0x0205"

definition COREWEBVIEW2_MOUSE_EVENT_KIND_MIDDLE_BUTTON_DOWN :: COREWEBVIEW2_MOUSE_EVENT_KIND where
  "COREWEBVIEW2_MOUSE_EVENT_KIND_MIDDLE_BUTTON_DOWN = 0x0207"

definition COREWEBVIEW2_MOUSE_EVENT_KIND_MIDDLE_BUTTON_UP :: COREWEBVIEW2_MOUSE_EVENT_KIND where
  "COREWEBVIEW2_MOUSE_EVENT_KIND_MIDDLE_BUTTON_UP = 0x0208"

definition COREWEBVIEW2_MOUSE_EVENT_KIND_WHEEL :: COREWEBVIEW2_MOUSE_EVENT_KIND where
  "COREWEBVIEW2_MOUSE_EVENT_KIND_WHEEL = 0x020a"

definition COREWEBVIEW2_MOUSE_EVENT_KIND_X_BUTTON_DOWN :: COREWEBVIEW2_MOUSE_EVENT_KIND where
  "COREWEBVIEW2_MOUSE_EVENT_KIND_X_BUTTON_DOWN = 0x020b"

definition COREWEBVIEW2_MOUSE_EVENT_KIND_X_BUTTON_UP :: COREWEBVIEW2_MOUSE_EVENT_KIND where
  "COREWEBVIEW2_MOUSE_EVENT_KIND_X_BUTTON_UP = 0x020c"

definition COREWEBVIEW2_MOUSE_EVENT_KIND_HORIZONTAL_WHEEL :: COREWEBVIEW2_MOUSE_EVENT_KIND where
  "COREWEBVIEW2_MOUSE_EVENT_KIND_HORIZONTAL_WHEEL = 0x020e"

definition COREWEBVIEW2_MOUSE_EVENT_VIRTUAL_KEYS_NONE :: COREWEBVIEW2_MOUSE_EVENT_VIRTUAL_KEYS where
  "COREWEBVIEW2_MOUSE_EVENT_VIRTUAL_KEYS_NONE = 0x0"

definition COREWEBVIEW2_MOUSE_EVENT_VIRTUAL_KEYS_LEFT_BUTTON :: COREWEBVIEW2_MOUSE_EVENT_VIRTUAL_KEYS where
  "COREWEBVIEW2_MOUSE_EVENT_VIRTUAL_KEYS_LEFT_BUTTON = 0x1"

definition COREWEBVIEW2_MOUSE_EVENT_VIRTUAL_KEYS_RIGHT_BUTTON :: COREWEBVIEW2_MOUSE_EVENT_VIRTUAL_KEYS where
  "COREWEBVIEW2_MOUSE_EVENT_VIRTUAL_KEYS_RIGHT_BUTTON = 0x2"

definition COREWEBVIEW2_MOUSE_EVENT_VIRTUAL_KEYS_MIDDLE_BUTTON :: COREWEBVIEW2_MOUSE_EVENT_VIRTUAL_KEYS where
  "COREWEBVIEW2_MOUSE_EVENT_VIRTUAL_KEYS_MIDDLE_BUTTON = 0x10"

text \<open>
  One call \<^verbatim>\<open>composition_controller_->SendMouseInput(kind, virtualKeys, mouseData, point)\<close>.
  The \<^verbatim>\<open>HRESULT\<close> it returns is dropped at every call site.
\<close>

datatype mouse_call =
  SendMouseInput (mi_kind: COREWEBVIEW2_MOUSE_EVENT_KIND)
                 (mi_virtualKeys: COREWEBVIEW2_MOUSE_EVENT_VIRTUAL_KEYS)
                 (mi_mouseData: UINT32)
                 (mi_point: POINT)

subsection \<open>Floating point\<close>

text \<open>
  A \<^verbatim>\<open>double\<close> is a finite value (a real number; the two zeros are one value here, and
  no operation of this file tells them apart), an infinity with its sign, or a NaN.
\<close>

datatype double = Finite real | Infinity bool | NaN

text \<open>
  What the C++ source leaves to the implementation: the rounded product of two doubles,
  the rounding of a \<^verbatim>\<open>size_t\<close> to \<^verbatim>\<open>float\<close>, and the value a conversion from
  \<^verbatim>\<open>double\<close> to an integer type yields when the truncated value is not representable
  (the C++ standard leaves the behaviour undefined there; the compiled conversion
  yields some value).
\<close>

record fp_impl =
  fmul :: "double \<Rightarrow> double \<Rightarrow> double"
  size_to_float :: "size_t \<Rightarrow> real"
  unrepresentable_short :: "double \<Rightarrow> short"
  unrepresentable_LONG :: "double \<Rightarrow> LONG"

text \<open>Truncation toward zero, the rule of a floating-integral conversion.\<close>

definition trunc :: "real \<Rightarrow> int" where
  "trunc r = (if 0 \<le> r then \<lfloor>r\<rfloor> else \<lceil>r\<rceil>)"

text \<open>\<^verbatim>\<open>static_cast<short>(d)\<close>\<close>

definition static_cast_short :: "fp_impl \<Rightarrow> double \<Rightarrow> short" where
  "static_cast_short impl d =
     (case d of
        Finite r \<Rightarrow>
          if - 32768 \<le> trunc r \<and> trunc r \<le> 32767 then word_of_int (trunc r)
          else unrepresentable_short impl d
      | _ \<Rightarrow> unrepresentable_short impl d)"

text \<open>\<^verbatim>\<open>static_cast<LONG>(d)\<close>\<close>

definition static_cast_LONG :: "fp_impl \<Rightarrow> double \<Rightarrow> LONG" where
  "static_cast_LONG impl d =
     (case d of
        Finite r \<Rightarrow>
          if - 2147483648 \<le> trunc r \<and> trunc r \<le> 2147483647 then word_of_int (trunc r)
          else unrepresentable_LONG impl d
      | _ \<Rightarrow> unrepresentable_LONG impl d)"

text \<open>\<^verbatim>\<open>d != 0.0\<close>: a NaN compares unequal to everything.\<close>

definition ne_zero :: "double \<Rightarrow> bool" where
  "ne_zero d = (case d of Finite r \<Rightarrow> r \<noteq> 0 | _ \<Rightarrow> True)"

subsection \<open>Declarations of \<^verbatim>\<open>webview.h\<close>\<close>

text \<open>
  Modelled from the spec: the header \<^verbatim>\<open>webview.h\<close> is not among the sources. The
  pointer buttons the source switches on are \<open>Primary\<close>, \<open>Secondary\<close> and
  \<open>Tertiary\<close>; \<open>OtherButton n\<close> stands for every other value of the enumeration,
  which reaches the \<^verbatim>\<open>default\<close> label.
\<close>

datatype WebviewPointerButton = Primary | Secondary | Tertiary | OtherButton int

text \<open>
  Modelled from the spec: \<^verbatim>\<open>WebviewLoadingState\<close> of the missing header, with the two
  enumerators the source uses.
\<close>

datatype WebviewLoadingState = Loading | NavigationCompleted

text \<open>
  Modelled from the spec: \<^verbatim>\<open>VirtualKeyState\<close> of the missing header. It holds a mask of
  virtual keys; each setter sets the flag of its button to the given value and leaves
  the other flags as they are; \<^verbatim>\<open>state()\<close> reads the mask.
\<close>

record VirtualKeyState =
  key_state :: COREWEBVIEW2_MOUSE_EVENT_VIRTUAL_KEYS

definition state :: "VirtualKeyState \<Rightarrow> COREWEBVIEW2_MOUSE_EVENT_VIRTUAL_KEYS" where
  "state vks = key_state vks"

definition set_key ::
  "COREWEBVIEW2_MOUSE_EVENT_VIRTUAL_KEYS \<Rightarrow> bool \<Rightarrow> VirtualKeyState \<Rightarrow> VirtualKeyState" where
  "set_key key flag vks =
     (if flag then vks\<lparr>key_state := key_state vks OR key\<rparr>
      else vks\<lparr>key_state := key_state vks AND NOT key\<rparr>)"

definition set_isLeftButtonDown :: "bool \<Rightarrow> VirtualKeyState \<Rightarrow> VirtualKeyState" where
  "set_isLeftButtonDown is_down' vks =
     set_key COREWEBVIEW2_MOUSE_EVENT_VIRTUAL_KEYS_LEFT_BUTTON is_down' vks"

definition set_isRightButtonDown :: "bool \<Rightarrow> VirtualKeyState \<Rightarrow> VirtualKeyState" where
  "set_isRightButtonDown is_down' vks =
     set_key COREWEBVIEW2_MOUSE_EVENT_VIRTUAL_KEYS_RIGHT_BUTTON is_down' vks"

definition set_isMiddleButtonDown :: "bool \<Rightarrow> VirtualKeyState \<Rightarrow> VirtualKeyState" where
  "set_isMiddleButtonDown is_down' vks =
     set_key COREWEBVIEW2_MOUSE_EVENT_VIRTUAL_KEYS_MIDDLE_BUTTON is_down' vks"

text \<open>
  The fields of \<^verbatim>\<open>Webview\<close> that the modelled methods read or write. A callback field
  (a \<^verbatim>\<open>std::function\<close>) is \<open>True\<close> when it holds a target; \<open>surface\<close> and
  \<open>settings2\<close> are \<open>True\<close> when the pointer is not null. The field names are
  the source's without their final underscore.
\<close>

record Webview =
  virtual_keys :: VirtualKeyState
  last_cursor_pos :: POINT
  surface :: bool
  settings2 :: bool
  loading_state_changed_callback :: bool
  url_changed_callback :: bool
  document_title_changed_callback :: bool
  cursor_changed_callback :: bool
  focus_changed_callback :: bool
  surface_size_changed_callback :: bool

subsection \<open>Pointer and scroll input\<close>

text \<open>
  The parameter \<^verbatim>\<open>is_down\<close> is written \<open>is_down'\<close>, the plain name being a constant
  of the word library.
\<close>

definition SetCursorPos ::
  "fp_impl \<Rightarrow> Webview \<Rightarrow> double \<Rightarrow> double \<Rightarrow> Webview \<times> mouse_call list" where
  "SetCursorPos impl w x y =
     (let point = \<lparr>POINT_x = static_cast_LONG impl x, POINT_y = static_cast_LONG impl y\<rparr>;
          w' = w\<lparr>last_cursor_pos := point\<rparr>
      in (w', [SendMouseInput COREWEBVIEW2_MOUSE_EVENT_KIND_MOVE
                 (state (virtual_keys w')) 0 point]))"

definition SetPointerButtonState ::
  "Webview \<Rightarrow> WebviewPointerButton \<Rightarrow> bool \<Rightarrow> Webview \<times> mouse_call list" where
  "SetPointerButtonState w button is_down' =
     (let (w', kind) =
        (case button of
           Primary \<Rightarrow>
             (w\<lparr>virtual_keys := set_isLeftButtonDown is_down' (virtual_keys w)\<rparr>,
              if is_down' then COREWEBVIEW2_MOUSE_EVENT_KIND_LEFT_BUTTON_DOWN
              else COREWEBVIEW2_MOUSE_EVENT_KIND_LEFT_BUTTON_UP)
         | Secondary \<Rightarrow>
             (w\<lparr>virtual_keys := set_isRightButtonDown is_down' (virtual_keys w)\<rparr>,
              if is_down' then COREWEBVIEW2_MOUSE_EVENT_KIND_RIGHT_BUTTON_DOWN
              else COREWEBVIEW2_MOUSE_EVENT_KIND_RIGHT_BUTTON_UP)
         | Tertiary \<Rightarrow>
             (w\<lparr>virtual_keys := set_isMiddleButtonDown is_down' (virtual_keys w)\<rparr>,
              if is_down' then COREWEBVIEW2_MOUSE_EVENT_KIND_MIDDLE_BUTTON_DOWN
              else COREWEBVIEW2_MOUSE_EVENT_KIND_MIDDLE_BUTTON_UP)
         | OtherButton n \<Rightarrow> (w, 0))
      in (w', [SendMouseInput kind (state (virtual_keys w')) 0 (last_cursor_pos w')]))"

definition kScrollMultiplier :: int where
  "kScrollMultiplier = 6"

text \<open>
  The \<^verbatim>\<open>short\<close> offset is passed for the \<^verbatim>\<open>UINT32\<close> parameter \<^verbatim>\<open>mouseData\<close>: the
  integral conversion extends its sign.
\<close>

definition SendScroll ::
  "fp_impl \<Rightarrow> Webview \<Rightarrow> double \<Rightarrow> bool \<Rightarrow> Webview \<times> mouse_call list" where
  "SendScroll impl w delta horizontal =
     (let offset = static_cast_short impl (fmul impl delta (Finite (of_int kScrollMultiplier)))
      in (w,
          [SendMouseInput COREWEBVIEW2_MOUSE_EVENT_KIND_X_BUTTON_DOWN
             COREWEBVIEW2_MOUSE_EVENT_VIRTUAL_KEYS_NONE 0 (last_cursor_pos w),
           (if horizontal then
              SendMouseInput COREWEBVIEW2_MOUSE_EVENT_KIND_HORIZONTAL_WHEEL
                (state (virtual_keys w)) (scast offset) (last_cursor_pos w)
            else
              SendMouseInput COREWEBVIEW2_MOUSE_EVENT_KIND_WHEEL
                (state (virtual_keys w)) (scast offset) (last_cursor_pos w)),
           SendMouseInput COREWEBVIEW2_MOUSE_EVENT_KIND_X_BUTTON_UP
             COREWEBVIEW2_MOUSE_EVENT_VIRTUAL_KEYS_NONE 0 (last_cursor_pos w)]))"

definition SetScrollDelta ::
  "fp_impl \<Rightarrow> Webview \<Rightarrow> double \<Rightarrow> double \<Rightarrow> Webview \<times> mouse_call list" where
  "SetScrollDelta impl w delta_x delta_y =
     (let (w1, calls1) = (if ne_zero delta_x then SendScroll impl w delta_x True else (w, []));
          (w2, calls2) = (if ne_zero delta_y then SendScroll impl w1 delta_y False else (w1, []))
      in (w2, calls1 @ calls2))"

text \<open>
  The host drives the object by a sequence of these calls. \<open>run\<close> performs them in
  order and collects the \<^verbatim>\<open>SendMouseInput\<close> calls they make.
\<close>

datatype input_op =
  OpSetCursorPos double double
| OpSetPointerButtonState WebviewPointerButton bool
| OpSendScroll double bool
| OpSetScrollDelta double double

fun step :: "fp_impl \<Rightarrow> Webview \<Rightarrow> input_op \<Rightarrow> Webview \<times> mouse_call list" where
  "step impl w (OpSetCursorPos x y) = SetCursorPos impl w x y"
| "step impl w (OpSetPointerButtonState button is_down') = SetPointerButtonState w button is_down'"
| "step impl w (OpSendScroll delta horizontal) = SendScroll impl w delta horizontal"
| "step impl w (OpSetScrollDelta delta_x delta_y) = SetScrollDelta impl w delta_x delta_y"

fun run :: "fp_impl \<Rightarrow> Webview \<Rightarrow> input_op list \<Rightarrow> Webview \<times> mouse_call list" where
  "run impl w [] = (w, [])"
| "run impl w (op # ops) =
     (let (w1, calls1) = step impl w op;
          (w2, calls2) = run impl w1 ops
      in (w2, calls1 @ calls2))"

text \<open>
  The position recorded by the most recent \<^verbatim>\<open>SetCursorPos\<close> of a sequence of calls, or
  the position \<open>p\<close> the object started with when the sequence has none.
\<close>

fun recorded_pos :: "fp_impl \<Rightarrow> POINT \<Rightarrow> input_op list \<Rightarrow> POINT" where
  "recorded_pos impl p [] = p"
| "recorded_pos impl p (OpSetCursorPos x y # ops) =
     recorded_pos impl \<lparr>POINT_x = static_cast_LONG impl x, POINT_y = static_cast_LONG impl y\<rparr> ops"
| "recorded_pos impl p (_ # ops) = recorded_pos impl p ops"

subsection \<open>Native calls and host callbacks\<close>

text \<open>
  The results of the native calls are inputs: an \<^verbatim>\<open>HRESULT\<close> for each call, with the
  value a getter writes through its out parameter. \<open>CW2A\<close> is the ATL conversion of a
  wide string to the ANSI code page.
\<close>

record native =
  CallDevToolsProtocolMethod :: "wstring \<Rightarrow> wstring \<Rightarrow> HRESULT"
  put_UserAgent :: "wstring \<Rightarrow> HRESULT"
  put_Bounds :: "RECT \<Rightarrow> HRESULT"
  get_Source :: "HRESULT \<times> wstring"
  get_DocumentTitle :: "HRESULT \<times> wstring"
  get_Cursor :: "HRESULT \<times> HCURSOR"
  CW2A :: "wstring \<Rightarrow> string"

text \<open>
  What a method or an event handler does that is visible outside the object: a call of
  the control, a line on \<^verbatim>\<open>std::cerr\<close>, or a call of one of the host's callbacks with
  its arguments.
\<close>

datatype call =
  Visual_Size real real
| Call_put_Bounds RECT
| Cerr string
| Call_DevToolsProtocolMethod wstring wstring
| Call_put_UserAgent wstring
| Call_get_Source
| Call_get_DocumentTitle
| Call_get_Cursor
| loading_state_changed WebviewLoadingState
| url_changed string
| document_title_changed string
| cursor_changed HCURSOR
| focus_changed bool
| surface_size_changed size_t size_t

text \<open>Calling an empty \<^verbatim>\<open>std::function\<close> throws \<^verbatim>\<open>std::bad_function_call\<close>.\<close>

datatype error = bad_function_call

definition invoke :: "bool \<Rightarrow> call \<Rightarrow> error + call list" where
  "invoke callback c = (if callback then Inr [c] else Inl bad_function_call)"

text \<open>
  \<^verbatim>\<open>towstring\<close> builds the wide string from the bytes of the narrow one, each \<^verbatim>\<open>char\<close>
  converted to \<^verbatim>\<open>wchar_t\<close>; \<^verbatim>\<open>char\<close> is signed under the compiler of this plugin, so a
  byte above 127 extends its sign.
\<close>

definition towstring :: "string \<Rightarrow> wstring" where
  "towstring str = map (\<lambda>c. scast (of_char c :: 8 word)) str"

subsection \<open>The event handlers of \<^verbatim>\<open>RegisterEventHandlers\<close>\<close>

text \<open>Each handler returns its \<^verbatim>\<open>HRESULT\<close> and the calls it made, or the exception.\<close>

definition ContentLoading_handler :: "Webview \<Rightarrow> error + HRESULT \<times> call list" where
  "ContentLoading_handler w =
     (if loading_state_changed_callback w then
        (case invoke (loading_state_changed_callback w) (loading_state_changed Loading) of
           Inl e \<Rightarrow> Inl e
         | Inr calls \<Rightarrow> Inr (S_OK, calls))
      else Inr (S_OK, []))"

definition NavigationCompleted_handler :: "Webview \<Rightarrow> error + HRESULT \<times> call list" where
  "NavigationCompleted_handler w =
     (if loading_state_changed_callback w then
        (case invoke (loading_state_changed_callback w)
                (loading_state_changed NavigationCompleted) of
           Inl e \<Rightarrow> Inl e
         | Inr calls \<Rightarrow> Inr (S_OK, calls))
      else Inr (S_OK, []))"

text \<open>
  The condition \<^verbatim>\<open>url_changed_callback_ && webview_->get_Source(&wurl) == S_OK\<close> makes
  the native call only when the callback is set.
\<close>

definition SourceChanged_handler :: "native \<Rightarrow> Webview \<Rightarrow> error + HRESULT \<times> call list" where
  "SourceChanged_handler env w =
     (if url_changed_callback w then
        (if fst (get_Source env) = S_OK then
           (case invoke (url_changed_callback w) (url_changed (CW2A env (snd (get_Source env)))) of
              Inl e \<Rightarrow> Inl e
            | Inr calls \<Rightarrow> Inr (S_OK, Call_get_Source # calls))
         else Inr (S_OK, [Call_get_Source]))
      else Inr (S_OK, []))"

definition DocumentTitleChanged_handler ::
  "native \<Rightarrow> Webview \<Rightarrow> error + HRESULT \<times> call list" where
  "DocumentTitleChanged_handler env w =
     (if document_title_changed_callback w then
        (if fst (get_DocumentTitle env) = S_OK then
           (case invoke (document_title_changed_callback w)
                   (document_title_changed (CW2A env (snd (get_DocumentTitle env)))) of
              Inl e \<Rightarrow> Inl e
            | Inr calls \<Rightarrow> Inr (S_OK, Call_get_DocumentTitle # calls))
         else Inr (S_OK, [Call_get_DocumentTitle]))
      else Inr (S_OK, []))"

definition CursorChanged_handler :: "native \<Rightarrow> Webview \<Rightarrow> error + HRESULT \<times> call list" where
  "CursorChanged_handler env w =
     (if cursor_changed_callback w then
        (if fst (get_Cursor env) = S_OK then
           (case invoke (cursor_changed_callback w) (cursor_changed (snd (get_Cursor env))) of
              Inl e \<Rightarrow> Inl e
            | Inr calls \<Rightarrow> Inr (S_OK, Call_get_Cursor # calls))
         else Inr (S_OK, [Call_get_Cursor]))
      else Inr (S_OK, []))"

definition GotFocus_handler :: "Webview \<Rightarrow> error + HRESULT \<times> call list" where
  "GotFocus_handler w =
     (if focus_changed_callback w then
        (case invoke (focus_changed_callback w) (focus_changed True) of
           Inl e \<Rightarrow> Inl e
         | Inr calls \<Rightarrow> Inr (S_OK, calls))
      else Inr (S_OK, []))"

definition LostFocus_handler :: "Webview \<Rightarrow> error + HRESULT \<times> call list" where
  "LostFocus_handler w =
     (if focus_changed_callback w then
        (case invoke (focus_changed_callback w) (focus_changed False) of
           Inl e \<Rightarrow> Inl e
         | Inr calls \<Rightarrow> Inr (S_OK, calls))
      else Inr (S_OK, []))"

subsection \<open>Surface size, cookies, user agent\<close>

text \<open>
  \<^verbatim>\<open>static_cast<LONG>(width)\<close> keeps the low 32 bits of the \<^verbatim>\<open>size_t\<close>. The method
  returns nothing; the result is the list of calls it made, or the exception.
\<close>

definition SetSurfaceSize ::
  "fp_impl \<Rightarrow> native \<Rightarrow> Webview \<Rightarrow> size_t \<Rightarrow> size_t \<Rightarrow> error + call list" where
  "SetSurfaceSize impl env w width height =
     (if surface w then
        (let bounds = \<lparr>RECT_left = 0, RECT_top = 0,
                       RECT_right = ucast width, RECT_bottom = ucast height\<rparr>;
             calls = [Visual_Size (size_to_float impl width) (size_to_float impl height),
                      Call_put_Bounds bounds] @
                     (if put_Bounds env bounds \<noteq> S_OK
                      then [Cerr ''Setting webview bounds failed.''] else [])
         in if surface_size_changed_callback w then
              (case invoke (surface_size_changed_callback w)
                      (surface_size_changed width height) of
                 Inl e \<Rightarrow> Inl e
               | Inr calls' \<Rightarrow> Inr (calls @ calls'))
            else Inr calls)
      else Inr [])"

definition ClearCookies :: "native \<Rightarrow> bool \<times> call list" where
  "ClearCookies env =
     (CallDevToolsProtocolMethod env
        (towstring ''Network.clearBrowserCookies'') (towstring ''{}'') = S_OK,
      [Call_DevToolsProtocolMethod
         (towstring ''Network.clearBrowserCookies'') (towstring ''{}'')])"

definition SetUserAgent :: "native \<Rightarrow> Webview \<Rightarrow> string \<Rightarrow> bool \<times> call list" where
  "SetUserAgent env w user_agent =
     (if settings2 w then
        (put_UserAgent env (towstring user_agent) = S_OK,
         [Call_put_UserAgent (towstring user_agent)])
      else (False, []))"

subsection \<open>Values for the examples\<close>

text \<open>
  An implementation whose products and size conversions are exact, as the rounded ones
  are on the values of the examples, and whose conversions yield 0 and the least
  \<^verbatim>\<open>LONG\<close> for a value that is not representable.
\<close>

definition example_impl :: fp_impl where
  "example_impl =
     \<lparr>fmul = (\<lambda>a b. case (a, b) of (Finite r, Finite s) \<Rightarrow> Finite (r * s) | _ \<Rightarrow> NaN),
      size_to_float = (\<lambda>n. real (unat n)),
      unrepresentable_short = (\<lambda>d. 0),
      unrepresentable_LONG = (\<lambda>d. 0x80000000)\<rparr>"

text \<open>An object with a surface and settings, no button down and no callback set.\<close>

definition example_Webview :: Webview where
  "example_Webview =
     \<lparr>virtual_keys = \<lparr>key_state = COREWEBVIEW2_MOUSE_EVENT_VIRTUAL_KEYS_NONE\<rparr>,
      last_cursor_pos = \<lparr>POINT_x = 0, POINT_y = 0\<rparr>,
      surface = True,
      settings2 = True,
      loading_state_changed_callback = False,
      url_changed_callback = False,
      document_title_changed_callback = False,
      cursor_changed_callback = False,
      focus_changed_callback = False,
      surface_size_changed_callback = False\<rparr>"

definition E_FAIL :: HRESULT where
  "E_FAIL = - 2147467259"

text \<open>A control whose \<^verbatim>\<open>put_Bounds\<close> and \<^verbatim>\<open>get_DocumentTitle\<close> fail.\<close>

definition example_env :: native where
  "example_env =
     \<lparr>CallDevToolsProtocolMethod = (\<lambda>method params. S_OK),
      put_UserAgent = (\<lambda>ua. S_OK),
      put_Bounds = (\<lambda>bounds. E_FAIL),
      get_Source = (S_OK, towstring ''about:blank''),
      get_DocumentTitle = (E_FAIL, []),
      get_Cursor = (S_OK, 0),
      CW2A = map (\<lambda>c. char_of (unat c))\<rparr>"

section \<open>Properties\<close>

subsection \<open>Conversions and flags\<close>

lemma trunc_toward_zero:
  "\<bar>real_of_int (trunc (r::real))\<bar> \<le> \<bar>r\<bar> \<and> \<bar>r\<bar> < \<bar>real_of_int (trunc r)\<bar> + 1 \<and>
   0 \<le> real_of_int (trunc r) * r"
proof (cases "0 \<le> r")
  case True
  have t: "trunc r = \<lfloor>r\<rfloor>" using True by (simp add: trunc_def)
  have lo: "0 \<le> real_of_int \<lfloor>r\<rfloor>" using True by simp
  have le: "real_of_int \<lfloor>r\<rfloor> \<le> r" and lt: "r < real_of_int \<lfloor>r\<rfloor> + 1" by linarith+
  have prod: "0 \<le> real_of_int \<lfloor>r\<rfloor> * r" using lo True by (rule mult_nonneg_nonneg)
  show ?thesis using True lo le lt prod by (simp add: t)
next
  case False
  have t: "trunc r = \<lceil>r\<rceil>" using False by (simp add: trunc_def)
  have neg: "r \<le> 0" using False by simp
  have hi: "real_of_int \<lceil>r\<rceil> \<le> 0" using neg by simp
  have ge: "r \<le> real_of_int \<lceil>r\<rceil>" and gt: "real_of_int \<lceil>r\<rceil> < r + 1" by linarith+
  have prod: "0 \<le> real_of_int \<lceil>r\<rceil> * r" using hi neg by (rule mult_nonpos_nonpos)
  show ?thesis using neg hi ge gt prod by (simp add: t)
qed

text \<open>The test \<^verbatim>\<open>d != 0.0\<close> fails for the zero only.\<close>

lemma ne_zero_iff: "ne_zero d = (d \<noteq> Finite 0)"
  by (cases d) (simp_all add: ne_zero_def)

lemma sint_short_of_int:
  "- 32768 \<le> t \<Longrightarrow> t \<le> 32767 \<Longrightarrow> sint (word_of_int t :: short) = t"
  by (simp add: sint_sbintrunc' signed_take_bit_int_eq_self)

lemma sint_LONG_of_int:
  "- 2147483648 \<le> t \<Longrightarrow> t \<le> 2147483647 \<Longrightarrow> sint (word_of_int t :: LONG) = t"
  by (simp add: sint_sbintrunc' signed_take_bit_int_eq_self)

lemma sint_static_cast_short:
  "- 32768 \<le> trunc r \<Longrightarrow> trunc r \<le> 32767 \<Longrightarrow> sint (static_cast_short impl (Finite r)) = trunc r"
  by (simp add: static_cast_short_def sint_short_of_int)

lemma sint_static_cast_LONG:
  "- 2147483648 \<le> trunc r \<Longrightarrow> trunc r \<le> 2147483647 \<Longrightarrow>
   sint (static_cast_LONG impl (Finite r)) = trunc r"
  by (simp add: static_cast_LONG_def sint_LONG_of_int)

lemma sint_scast_short: "sint (scast (s :: short) :: UINT32) = sint s"
  by (simp add: sint_up_scast is_up)

lemma set_key_flag:
  "key \<noteq> 0 \<Longrightarrow> (state (set_key key flag vks) AND key \<noteq> 0) = flag"
  by (simp add: state_def set_key_def and.assoc)

lemma set_key_others: "state (set_key key flag vks) AND NOT key = state vks AND NOT key"
  by (simp add: state_def set_key_def and.assoc bit.conj_disj_distrib2)

subsection \<open>The cursor position is only written by \<^verbatim>\<open>SetCursorPos\<close>\<close>

lemma call_points:
  "c \<in> set (snd (SetPointerButtonState w button is_down')) \<Longrightarrow> mi_point c = last_cursor_pos w"
  "c \<in> set (snd (SendScroll impl w delta horizontal)) \<Longrightarrow> mi_point c = last_cursor_pos w"
  "c \<in> set (snd (SetScrollDelta impl w delta_x delta_y)) \<Longrightarrow> mi_point c = last_cursor_pos w"
  by (auto simp: SetPointerButtonState_def SendScroll_def SetScrollDelta_def Let_def
      split: WebviewPointerButton.splits if_splits)

lemma last_cursor_pos_kept:
  "last_cursor_pos (fst (SetPointerButtonState w button is_down')) = last_cursor_pos w"
  "last_cursor_pos (fst (SendScroll impl w delta horizontal)) = last_cursor_pos w"
  "last_cursor_pos (fst (SetScrollDelta impl w delta_x delta_y)) = last_cursor_pos w"
  by (auto simp: SetPointerButtonState_def SendScroll_def SetScrollDelta_def Let_def
      split: WebviewPointerButton.splits if_splits)

lemma last_cursor_pos_run:
  "last_cursor_pos (fst (run impl w ops)) = recorded_pos impl (last_cursor_pos w) ops"
proof (induction ops arbitrary: w)
  case Nil
  show ?case by simp
next
  case (Cons op ops)
  have head: "recorded_pos impl (last_cursor_pos w) (op # ops) =
              recorded_pos impl (last_cursor_pos (fst (step impl w op))) ops"
    by (cases op) (simp_all add: last_cursor_pos_kept, simp add: SetCursorPos_def Let_def)
  show ?case
    using Cons.IH [of "fst (step impl w op)"] head
    by (simp add: split_beta Let_def)
qed

subsection \<open>Scrolling\<close>

text \<open>
  C1. For every delta and orientation, \<^verbatim>\<open>SendScroll\<close> makes exactly three
  \<^verbatim>\<open>SendMouseInput\<close> calls, in this order: X-button-down with no virtual keys and no
  data at the last cursor position; the wheel event (horizontal wheel when
  \<open>horizontal\<close>, vertical wheel otherwise) with the current virtual-key state, the
  same position and, as data, the \<^verbatim>\<open>short\<close> that \<^verbatim>\<open>delta * 6\<close> converts to; X-button-up
  with no virtual keys and no data at the same position. The object is left as it was.
  Where the product is finite and its integer part fits 16 bits, the data is that
  product truncated toward zero.
\<close>

theorem SendScroll_emits_three_events:
  "SendScroll impl w delta horizontal =
     (w, [SendMouseInput COREWEBVIEW2_MOUSE_EVENT_KIND_X_BUTTON_DOWN
            COREWEBVIEW2_MOUSE_EVENT_VIRTUAL_KEYS_NONE 0 (last_cursor_pos w),
          SendMouseInput (if horizontal then COREWEBVIEW2_MOUSE_EVENT_KIND_HORIZONTAL_WHEEL
                          else COREWEBVIEW2_MOUSE_EVENT_KIND_WHEEL)
            (state (virtual_keys w))
            (scast (static_cast_short impl (fmul impl delta (Finite 6))))
            (last_cursor_pos w),
          SendMouseInput COREWEBVIEW2_MOUSE_EVENT_KIND_X_BUTTON_UP
            COREWEBVIEW2_MOUSE_EVENT_VIRTUAL_KEYS_NONE 0 (last_cursor_pos w)]) \<and>
   (fmul impl delta (Finite 6) = Finite r \<and> - 32768 \<le> trunc r \<and> trunc r \<le> 32767 \<longrightarrow>
      map (\<lambda>c. sint (mi_mouseData c)) (snd (SendScroll impl w delta horizontal)) =
        [0, trunc r, 0])"
proof -
  have calls: "SendScroll impl w delta horizontal =
     (w, [SendMouseInput COREWEBVIEW2_MOUSE_EVENT_KIND_X_BUTTON_DOWN
            COREWEBVIEW2_MOUSE_EVENT_VIRTUAL_KEYS_NONE 0 (last_cursor_pos w),
          SendMouseInput (if horizontal then COREWEBVIEW2_MOUSE_EVENT_KIND_HORIZONTAL_WHEEL
                          else COREWEBVIEW2_MOUSE_EVENT_KIND_WHEEL)
            (state (virtual_keys w))
            (scast (static_cast_short impl (fmul impl delta (Finite 6))))
            (last_cursor_pos w),
          SendMouseInput COREWEBVIEW2_MOUSE_EVENT_KIND_X_BUTTON_UP
            COREWEBVIEW2_MOUSE_EVENT_VIRTUAL_KEYS_NONE 0 (last_cursor_pos w)])"
    by (simp add: SendScroll_def kScrollMultiplier_def)
  have data: "map (\<lambda>c. sint (mi_mouseData c)) (snd (SendScroll impl w delta horizontal)) =
        [0, trunc r, 0]"
    if "fmul impl delta (Finite 6) = Finite r" "- 32768 \<le> trunc r" "trunc r \<le> 32767"
    using that by (simp add: calls sint_scast_short sint_static_cast_short)
  show ?thesis
    using calls data by blast
qed

theorem SendScroll_emits_three_events_witness:
  "fmul example_impl (Finite (- 2.75)) (Finite 6) = Finite (- 16.5) \<and>
   - 32768 \<le> trunc (- 16.5) \<and> trunc (- 16.5) \<le> 32767 \<and> trunc (- 16.5) = - 16 \<and>
   SendScroll example_impl example_Webview (Finite (- 2.75)) True =
     (example_Webview,
      [SendMouseInput COREWEBVIEW2_MOUSE_EVENT_KIND_X_BUTTON_DOWN 0 0 \<lparr>POINT_x = 0, POINT_y = 0\<rparr>,
       SendMouseInput COREWEBVIEW2_MOUSE_EVENT_KIND_HORIZONTAL_WHEEL 0 0xFFFFFFF0
         \<lparr>POINT_x = 0, POINT_y = 0\<rparr>,
       SendMouseInput COREWEBVIEW2_MOUSE_EVENT_KIND_X_BUTTON_UP 0 0 \<lparr>POINT_x = 0, POINT_y = 0\<rparr>]) \<and>
   map (\<lambda>c. sint (mi_mouseData c))
     (snd (SendScroll example_impl example_Webview (Finite (- 2.75)) True)) = [0, - 16, 0]"
proof -
  have product: "fmul example_impl (Finite (- 2.75)) (Finite 6) = Finite (- 16.5)"
    by (simp add: example_impl_def)
  have integer_part: "trunc (- 16.5) = - 16"
    by (simp add: trunc_def)
  have calls: "SendScroll example_impl example_Webview (Finite (- 2.75)) True =
     (example_Webview,
      [SendMouseInput COREWEBVIEW2_MOUSE_EVENT_KIND_X_BUTTON_DOWN 0 0 \<lparr>POINT_x = 0, POINT_y = 0\<rparr>,
       SendMouseInput COREWEBVIEW2_MOUSE_EVENT_KIND_HORIZONTAL_WHEEL 0 0xFFFFFFF0
         \<lparr>POINT_x = 0, POINT_y = 0\<rparr>,
       SendMouseInput COREWEBVIEW2_MOUSE_EVENT_KIND_X_BUTTON_UP 0 0 \<lparr>POINT_x = 0, POINT_y = 0\<rparr>])"
    by (simp add: example_impl_def example_Webview_def SendScroll_def kScrollMultiplier_def
        static_cast_short_def trunc_def state_def COREWEBVIEW2_MOUSE_EVENT_VIRTUAL_KEYS_NONE_def)
  have range: "- 32768 \<le> trunc (- 16.5) \<and> trunc (- 16.5) \<le> 32767"
    by (simp add: trunc_def)
  have "map (\<lambda>c. sint (mi_mouseData c))
     (snd (SendScroll example_impl example_Webview (Finite (- 2.75)) True)) = [0, trunc (- 16.5), 0]"
    using SendScroll_emits_three_events
            [of example_impl example_Webview "Finite (- 2.75)" True "- 16.5"]
      product range by blast
  then show ?thesis
    using product integer_part range calls by simp
qed

text \<open>
  C5. For every pair of deltas, \<^verbatim>\<open>SetScrollDelta\<close> makes the calls of a horizontal
  \<^verbatim>\<open>SendScroll\<close> with \<open>delta_x\<close> exactly when \<open>delta_x\<close> is not zero, followed by
  the calls of a vertical \<^verbatim>\<open>SendScroll\<close> with \<open>delta_y\<close> exactly when \<open>delta_y\<close> is
  not zero, and nothing else: a horizontal wheel event is among the calls if and only
  if \<open>delta_x\<close> is not zero, a vertical one if and only if \<open>delta_y\<close> is not zero, and
  with both deltas zero no call is made. Not zero is the source's test \<^verbatim>\<open>!= 0.0\<close>: a
  finite delta passes it when the number differs from 0, a NaN and an infinity always.
\<close>

theorem SetScrollDelta_forwards_nonzero:
  "SetScrollDelta impl w delta_x delta_y =
     (w, (if delta_x \<noteq> Finite 0 then snd (SendScroll impl w delta_x True) else []) @
         (if delta_y \<noteq> Finite 0 then snd (SendScroll impl w delta_y False) else [])) \<and>
   (COREWEBVIEW2_MOUSE_EVENT_KIND_HORIZONTAL_WHEEL
      \<in> mi_kind ` set (snd (SetScrollDelta impl w delta_x delta_y))) = (delta_x \<noteq> Finite 0) \<and>
   (COREWEBVIEW2_MOUSE_EVENT_KIND_WHEEL
      \<in> mi_kind ` set (snd (SetScrollDelta impl w delta_x delta_y))) = (delta_y \<noteq> Finite 0) \<and>
   SetScrollDelta impl w (Finite 0) (Finite 0) = (w, []) \<and>
   ne_zero (Finite r) = (r \<noteq> 0) \<and> ne_zero NaN \<and> ne_zero (Infinity b)"
proof -
  have calls: "SetScrollDelta impl w delta_x delta_y =
     (w, (if delta_x \<noteq> Finite 0 then snd (SendScroll impl w delta_x True) else []) @
         (if delta_y \<noteq> Finite 0 then snd (SendScroll impl w delta_y False) else []))"
    by (simp add: SetScrollDelta_def SendScroll_def Let_def ne_zero_iff)
  have horizontal: "(COREWEBVIEW2_MOUSE_EVENT_KIND_HORIZONTAL_WHEEL
      \<in> mi_kind ` set (snd (SetScrollDelta impl w delta_x delta_y))) = (delta_x \<noteq> Finite 0)"
    by (simp add: SetScrollDelta_def SendScroll_def Let_def ne_zero_iff
        COREWEBVIEW2_MOUSE_EVENT_KIND_HORIZONTAL_WHEEL_def COREWEBVIEW2_MOUSE_EVENT_KIND_WHEEL_def
        COREWEBVIEW2_MOUSE_EVENT_KIND_X_BUTTON_DOWN_def COREWEBVIEW2_MOUSE_EVENT_KIND_X_BUTTON_UP_def)
  have vertical: "(COREWEBVIEW2_MOUSE_EVENT_KIND_WHEEL
      \<in> mi_kind ` set (snd (SetScrollDelta impl w delta_x delta_y))) = (delta_y \<noteq> Finite 0)"
    by (simp add: SetScrollDelta_def SendScroll_def Let_def ne_zero_iff
        COREWEBVIEW2_MOUSE_EVENT_KIND_HORIZONTAL_WHEEL_def COREWEBVIEW2_MOUSE_EVENT_KIND_WHEEL_def
        COREWEBVIEW2_MOUSE_EVENT_KIND_X_BUTTON_DOWN_def COREWEBVIEW2_MOUSE_EVENT_KIND_X_BUTTON_UP_def)
  have none: "SetScrollDelta impl w (Finite 0) (Finite 0) = (w, [])"
    by (simp add: SetScrollDelta_def ne_zero_def)
  have test: "ne_zero (Finite r) = (r \<noteq> 0) \<and> ne_zero NaN \<and> ne_zero (Infinity b)"
    by (simp add: ne_zero_def)
  show ?thesis
    using calls horizontal vertical none test by blast
qed

theorem SetScrollDelta_forwards_nonzero_witness:
  "SetScrollDelta example_impl example_Webview (Finite 0) (Finite (- 20)) =
     (example_Webview,
      [SendMouseInput COREWEBVIEW2_MOUSE_EVENT_KIND_X_BUTTON_DOWN 0 0 \<lparr>POINT_x = 0, POINT_y = 0\<rparr>,
       SendMouseInput COREWEBVIEW2_MOUSE_EVENT_KIND_WHEEL 0 0xFFFFFF88 \<lparr>POINT_x = 0, POINT_y = 0\<rparr>,
       SendMouseInput COREWEBVIEW2_MOUSE_EVENT_KIND_X_BUTTON_UP 0 0 \<lparr>POINT_x = 0, POINT_y = 0\<rparr>]) \<and>
   SetScrollDelta example_impl example_Webview (Finite 0.5) (Finite 0) =
     (example_Webview,
      [SendMouseInput COREWEBVIEW2_MOUSE_EVENT_KIND_X_BUTTON_DOWN 0 0 \<lparr>POINT_x = 0, POINT_y = 0\<rparr>,
       SendMouseInput COREWEBVIEW2_MOUSE_EVENT_KIND_HORIZONTAL_WHEEL 0 3 \<lparr>POINT_x = 0, POINT_y = 0\<rparr>,
       SendMouseInput COREWEBVIEW2_MOUSE_EVENT_KIND_X_BUTTON_UP 0 0 \<lparr>POINT_x = 0, POINT_y = 0\<rparr>]) \<and>
   length (snd (SetScrollDelta example_impl example_Webview NaN (Infinity True))) = 6 \<and>
   SetScrollDelta example_impl example_Webview (Finite 0) (Finite 0) = (example_Webview, [])"
proof -
  have sx: "snd (SendScroll example_impl example_Webview (Finite 0.5) True) =
      [SendMouseInput COREWEBVIEW2_MOUSE_EVENT_KIND_X_BUTTON_DOWN 0 0 \<lparr>POINT_x = 0, POINT_y = 0\<rparr>,
       SendMouseInput COREWEBVIEW2_MOUSE_EVENT_KIND_HORIZONTAL_WHEEL 0 3 \<lparr>POINT_x = 0, POINT_y = 0\<rparr>,
       SendMouseInput COREWEBVIEW2_MOUSE_EVENT_KIND_X_BUTTON_UP 0 0 \<lparr>POINT_x = 0, POINT_y = 0\<rparr>]"
    by (simp add: example_impl_def example_Webview_def SendScroll_def kScrollMultiplier_def
        static_cast_short_def trunc_def state_def COREWEBVIEW2_MOUSE_EVENT_VIRTUAL_KEYS_NONE_def)
  have sy: "snd (SendScroll example_impl example_Webview (Finite (- 20)) False) =
      [SendMouseInput COREWEBVIEW2_MOUSE_EVENT_KIND_X_BUTTON_DOWN 0 0 \<lparr>POINT_x = 0, POINT_y = 0\<rparr>,
       SendMouseInput COREWEBVIEW2_MOUSE_EVENT_KIND_WHEEL 0 0xFFFFFF88 \<lparr>POINT_x = 0, POINT_y = 0\<rparr>,
       SendMouseInput COREWEBVIEW2_MOUSE_EVENT_KIND_X_BUTTON_UP 0 0 \<lparr>POINT_x = 0, POINT_y = 0\<rparr>]"
    by (simp add: example_impl_def example_Webview_def SendScroll_def kScrollMultiplier_def
        static_cast_short_def trunc_def state_def COREWEBVIEW2_MOUSE_EVENT_VIRTUAL_KEYS_NONE_def)
  have len: "length (snd (SendScroll example_impl example_Webview d h)) = 3" for d h
    by (simp add: SendScroll_def Let_def)
  show ?thesis
    using SetScrollDelta_forwards_nonzero [of example_impl example_Webview "Finite 0" "Finite (- 20)"]
      SetScrollDelta_forwards_nonzero [of example_impl example_Webview "Finite 0.5" "Finite 0"]
      SetScrollDelta_forwards_nonzero [of example_impl example_Webview NaN "Infinity True"] sx sy len
    by simp
qed

subsection \<open>Pointer buttons and the cursor\<close>

text \<open>
  C4. For each of the buttons \<open>Primary\<close>, \<open>Secondary\<close> and \<open>Tertiary\<close> and each value
  of \<open>is_down\<close>, \<^verbatim>\<open>SetPointerButtonState\<close> sets the flag of the left, right or middle
  button in the virtual-key state to \<open>is_down\<close>, leaves the other flags as they are,
  and makes exactly one \<^verbatim>\<open>SendMouseInput\<close> call: its kind is the button's down kind
  when \<open>is_down\<close> and its up kind otherwise, and it carries the updated virtual-key
  state, no data and the last cursor position.
\<close>

theorem SetPointerButtonState_forwards_button:
  "SetPointerButtonState w Primary is_down' =
     (w\<lparr>virtual_keys := set_isLeftButtonDown is_down' (virtual_keys w)\<rparr>,
      [SendMouseInput (if is_down' then COREWEBVIEW2_MOUSE_EVENT_KIND_LEFT_BUTTON_DOWN
                       else COREWEBVIEW2_MOUSE_EVENT_KIND_LEFT_BUTTON_UP)
         (state (set_isLeftButtonDown is_down' (virtual_keys w))) 0 (last_cursor_pos w)]) \<and>
   SetPointerButtonState w Secondary is_down' =
     (w\<lparr>virtual_keys := set_isRightButtonDown is_down' (virtual_keys w)\<rparr>,
      [SendMouseInput (if is_down' then COREWEBVIEW2_MOUSE_EVENT_KIND_RIGHT_BUTTON_DOWN
                       else COREWEBVIEW2_MOUSE_EVENT_KIND_RIGHT_BUTTON_UP)
         (state (set_isRightButtonDown is_down' (virtual_keys w))) 0 (last_cursor_pos w)]) \<and>
   SetPointerButtonState w Tertiary is_down' =
     (w\<lparr>virtual_keys := set_isMiddleButtonDown is_down' (virtual_keys w)\<rparr>,
      [SendMouseInput (if is_down' then COREWEBVIEW2_MOUSE_EVENT_KIND_MIDDLE_BUTTON_DOWN
                       else COREWEBVIEW2_MOUSE_EVENT_KIND_MIDDLE_BUTTON_UP)
         (state (set_isMiddleButtonDown is_down' (virtual_keys w))) 0 (last_cursor_pos w)]) \<and>
   (state (set_isLeftButtonDown is_down' vks)
      AND COREWEBVIEW2_MOUSE_EVENT_VIRTUAL_KEYS_LEFT_BUTTON \<noteq> 0) = is_down' \<and>
   (state (set_isRightButtonDown is_down' vks)
      AND COREWEBVIEW2_MOUSE_EVENT_VIRTUAL_KEYS_RIGHT_BUTTON \<noteq> 0) = is_down' \<and>
   (state (set_isMiddleButtonDown is_down' vks)
      AND COREWEBVIEW2_MOUSE_EVENT_VIRTUAL_KEYS_MIDDLE_BUTTON \<noteq> 0) = is_down' \<and>
   state (set_isLeftButtonDown is_down' vks)
      AND NOT COREWEBVIEW2_MOUSE_EVENT_VIRTUAL_KEYS_LEFT_BUTTON =
     state vks AND NOT COREWEBVIEW2_MOUSE_EVENT_VIRTUAL_KEYS_LEFT_BUTTON \<and>
   state (set_isRightButtonDown is_down' vks)
      AND NOT COREWEBVIEW2_MOUSE_EVENT_VIRTUAL_KEYS_RIGHT_BUTTON =
     state vks AND NOT COREWEBVIEW2_MOUSE_EVENT_VIRTUAL_KEYS_RIGHT_BUTTON \<and>
   state (set_isMiddleButtonDown is_down' vks)
      AND NOT COREWEBVIEW2_MOUSE_EVENT_VIRTUAL_KEYS_MIDDLE_BUTTON =
     state vks AND NOT COREWEBVIEW2_MOUSE_EVENT_VIRTUAL_KEYS_MIDDLE_BUTTON"
proof -
  have left: "COREWEBVIEW2_MOUSE_EVENT_VIRTUAL_KEYS_LEFT_BUTTON \<noteq> 0"
    and right: "COREWEBVIEW2_MOUSE_EVENT_VIRTUAL_KEYS_RIGHT_BUTTON \<noteq> 0"
    and middle: "COREWEBVIEW2_MOUSE_EVENT_VIRTUAL_KEYS_MIDDLE_BUTTON \<noteq> 0"
    by (simp_all add: COREWEBVIEW2_MOUSE_EVENT_VIRTUAL_KEYS_LEFT_BUTTON_def
        COREWEBVIEW2_MOUSE_EVENT_VIRTUAL_KEYS_RIGHT_BUTTON_def
        COREWEBVIEW2_MOUSE_EVENT_VIRTUAL_KEYS_MIDDLE_BUTTON_def)
  show ?thesis
    unfolding set_isLeftButtonDown_def set_isRightButtonDown_def set_isMiddleButtonDown_def
    by (simp add: SetPointerButtonState_def set_key_flag [OF left] set_key_flag [OF right]
        set_key_flag [OF middle] set_key_others
        set_isLeftButtonDown_def set_isRightButtonDown_def set_isMiddleButtonDown_def)
qed

text \<open>
  C10. For every button other than \<open>Primary\<close>, \<open>Secondary\<close> and \<open>Tertiary\<close> and either
  value of \<open>is_down\<close>, \<^verbatim>\<open>SetPointerButtonState\<close> leaves the object, and so its
  virtual-key state, as it was, and still makes one \<^verbatim>\<open>SendMouseInput\<close> call, of kind
  0, with that virtual-key state, no data and the last cursor position.
\<close>

theorem SetPointerButtonState_other_button:
  "button \<noteq> Primary \<Longrightarrow> button \<noteq> Secondary \<Longrightarrow> button \<noteq> Tertiary \<Longrightarrow>
   SetPointerButtonState w button is_down' =
     (w, [SendMouseInput 0 (state (virtual_keys w)) 0 (last_cursor_pos w)])"
  by (cases button) (simp_all add: SetPointerButtonState_def)

theorem SetPointerButtonState_other_button_witness:
  "OtherButton 0 \<noteq> Primary \<and> OtherButton 0 \<noteq> Secondary \<and> OtherButton 0 \<noteq> Tertiary \<and>
   SetPointerButtonState example_Webview (OtherButton 0) True =
     (example_Webview, [SendMouseInput 0 0 0 \<lparr>POINT_x = 0, POINT_y = 0\<rparr>])"
  using SetPointerButtonState_other_button [of "OtherButton 0" example_Webview True]
  by (simp add: example_Webview_def state_def COREWEBVIEW2_MOUSE_EVENT_VIRTUAL_KEYS_NONE_def)

text \<open>
  C7. For every cursor position, \<^verbatim>\<open>SetCursorPos\<close> converts each of \<open>x\<close> and \<open>y\<close> to a
  \<^verbatim>\<open>LONG\<close>, records the resulting point as the last cursor position, and makes exactly
  one \<^verbatim>\<open>SendMouseInput\<close> call: a mouse move at that point with the current virtual-key
  state and no data. Where a coordinate is finite and its integer part fits a
  \<^verbatim>\<open>LONG\<close>, the recorded coordinate is the coordinate truncated toward zero.
\<close>

theorem SetCursorPos_truncates_and_moves:
  "SetCursorPos impl w x y =
     (w\<lparr>last_cursor_pos :=
          \<lparr>POINT_x = static_cast_LONG impl x, POINT_y = static_cast_LONG impl y\<rparr>\<rparr>,
      [SendMouseInput COREWEBVIEW2_MOUSE_EVENT_KIND_MOVE (state (virtual_keys w)) 0
         \<lparr>POINT_x = static_cast_LONG impl x, POINT_y = static_cast_LONG impl y\<rparr>]) \<and>
   (x = Finite r \<and> - 2147483648 \<le> trunc r \<and> trunc r \<le> 2147483647 \<longrightarrow>
      sint (POINT_x (last_cursor_pos (fst (SetCursorPos impl w x y)))) = trunc r) \<and>
   (y = Finite s \<and> - 2147483648 \<le> trunc s \<and> trunc s \<le> 2147483647 \<longrightarrow>
      sint (POINT_y (last_cursor_pos (fst (SetCursorPos impl w x y)))) = trunc s)"
proof -
  have calls: "SetCursorPos impl w x y =
     (w\<lparr>last_cursor_pos :=
          \<lparr>POINT_x = static_cast_LONG impl x, POINT_y = static_cast_LONG impl y\<rparr>\<rparr>,
      [SendMouseInput COREWEBVIEW2_MOUSE_EVENT_KIND_MOVE (state (virtual_keys w)) 0
         \<lparr>POINT_x = static_cast_LONG impl x, POINT_y = static_cast_LONG impl y\<rparr>])"
    by (simp add: SetCursorPos_def Let_def)
  have px: "sint (POINT_x (last_cursor_pos (fst (SetCursorPos impl w x y)))) = trunc r"
    if "x = Finite r" "- 2147483648 \<le> trunc r" "trunc r \<le> 2147483647"
    using that by (simp add: SetCursorPos_def Let_def sint_static_cast_LONG)
  have py: "sint (POINT_y (last_cursor_pos (fst (SetCursorPos impl w x y)))) = trunc s"
    if "y = Finite s" "- 2147483648 \<le> trunc s" "trunc s \<le> 2147483647"
    using that by (simp add: SetCursorPos_def Let_def sint_static_cast_LONG)
  show ?thesis
    using calls px py by blast
qed

theorem SetCursorPos_truncates_and_moves_witness:
  "- 2147483648 \<le> trunc 10.5 \<and> trunc 10.5 \<le> 2147483647 \<and> trunc 10.5 = 10 \<and>
   - 2147483648 \<le> trunc (- 20.75) \<and> trunc (- 20.75) \<le> 2147483647 \<and> trunc (- 20.75) = - 20 \<and>
   sint (POINT_x (last_cursor_pos
     (fst (SetCursorPos example_impl example_Webview (Finite 10.5) (Finite (- 20.75)))))) = 10 \<and>
   sint (POINT_y (last_cursor_pos
     (fst (SetCursorPos example_impl example_Webview (Finite 10.5) (Finite (- 20.75)))))) = - 20 \<and>
   snd (SetCursorPos example_impl example_Webview (Finite 10.5) (Finite (- 20.75))) =
     [SendMouseInput COREWEBVIEW2_MOUSE_EVENT_KIND_MOVE 0 0
        \<lparr>POINT_x = 10, POINT_y = 0xFFFFFFEC\<rparr>]"
proof -
  have tx: "trunc 10.5 = 10" and ty: "trunc (- 20.75) = - 20"
    by (simp_all add: trunc_def)
  have range: "- 2147483648 \<le> trunc 10.5 \<and> trunc 10.5 \<le> 2147483647 \<and>
               - 2147483648 \<le> trunc (- 20.75) \<and> trunc (- 20.75) \<le> 2147483647"
    by (simp add: trunc_def)
  note inst = SetCursorPos_truncates_and_moves
               [of example_impl example_Webview "Finite 10.5" "Finite (- 20.75)" "10.5" "- 20.75"]
  have px: "sint (POINT_x (last_cursor_pos
     (fst (SetCursorPos example_impl example_Webview (Finite 10.5) (Finite (- 20.75)))))) =
       trunc 10.5"
    using inst range by blast
  have py: "sint (POINT_y (last_cursor_pos
     (fst (SetCursorPos example_impl example_Webview (Finite 10.5) (Finite (- 20.75)))))) =
       trunc (- 20.75)"
    using inst range by blast
  have calls: "snd (SetCursorPos example_impl example_Webview (Finite 10.5) (Finite (- 20.75))) =
     [SendMouseInput COREWEBVIEW2_MOUSE_EVENT_KIND_MOVE 0 0
        \<lparr>POINT_x = 10, POINT_y = 0xFFFFFFEC\<rparr>]"
    by (simp add: SetCursorPos_def Let_def static_cast_LONG_def trunc_def example_Webview_def
        state_def COREWEBVIEW2_MOUSE_EVENT_VIRTUAL_KEYS_NONE_def)
  show ?thesis
    using tx ty px py calls by simp
qed

text \<open>
  C9. After any sequence of \<^verbatim>\<open>SetCursorPos\<close>, \<^verbatim>\<open>SetPointerButtonState\<close>,
  \<^verbatim>\<open>SendScroll\<close> and \<^verbatim>\<open>SetScrollDelta\<close> calls, the last cursor position is the one
  recorded by the most recent \<^verbatim>\<open>SetCursorPos\<close> of the sequence, or the one the object
  started with when the sequence has none, and every mouse event that
  \<^verbatim>\<open>SetPointerButtonState\<close>, \<^verbatim>\<open>SendScroll\<close> or \<^verbatim>\<open>SetScrollDelta\<close> then sends is sent
  at that position. \<^verbatim>\<open>SetPointerButtonState\<close>, \<^verbatim>\<open>SendScroll\<close> and \<^verbatim>\<open>SetScrollDelta\<close>
  leave the field unchanged; \<^verbatim>\<open>SetCursorPos\<close> writes it.
\<close>

theorem last_cursor_pos_anchors_input:
  "last_cursor_pos (fst (run impl w ops)) = recorded_pos impl (last_cursor_pos w) ops \<and>
   (\<forall>c \<in> set (snd (SetPointerButtonState (fst (run impl w ops)) button is_down')).
      mi_point c = recorded_pos impl (last_cursor_pos w) ops) \<and>
   (\<forall>c \<in> set (snd (SendScroll impl (fst (run impl w ops)) delta horizontal)).
      mi_point c = recorded_pos impl (last_cursor_pos w) ops) \<and>
   (\<forall>c \<in> set (snd (SetScrollDelta impl (fst (run impl w ops)) delta_x delta_y)).
      mi_point c = recorded_pos impl (last_cursor_pos w) ops) \<and>
   last_cursor_pos (fst (SetPointerButtonState w button is_down')) = last_cursor_pos w \<and>
   last_cursor_pos (fst (SendScroll impl w delta horizontal)) = last_cursor_pos w \<and>
   last_cursor_pos (fst (SetScrollDelta impl w delta_x delta_y)) = last_cursor_pos w \<and>
   last_cursor_pos (fst (SetCursorPos impl w x y)) =
     \<lparr>POINT_x = static_cast_LONG impl x, POINT_y = static_cast_LONG impl y\<rparr>"
proof -
  have written: "last_cursor_pos (fst (SetCursorPos impl w x y)) =
     \<lparr>POINT_x = static_cast_LONG impl x, POINT_y = static_cast_LONG impl y\<rparr>"
    by (simp add: SetCursorPos_def Let_def)
  show ?thesis
    by (simp add: call_points last_cursor_pos_kept last_cursor_pos_run written)
qed

theorem last_cursor_pos_anchors_input_witness:
  "SendMouseInput COREWEBVIEW2_MOUSE_EVENT_KIND_LEFT_BUTTON_DOWN 1 0 \<lparr>POINT_x = 10, POINT_y = 20\<rparr>
     \<in> set (snd (SetPointerButtonState
          (fst (run example_impl example_Webview
                  [OpSetCursorPos (Finite 3) (Finite 4), OpSendScroll (Finite 20) False,
                   OpSetCursorPos (Finite 10.5) (Finite 20.75),
                   OpSetScrollDelta (Finite 0) (Finite (- 1))]))
          Primary True)) \<and>
   SendMouseInput COREWEBVIEW2_MOUSE_EVENT_KIND_WHEEL 0 120 \<lparr>POINT_x = 10, POINT_y = 20\<rparr>
     \<in> set (snd (SendScroll example_impl
          (fst (run example_impl example_Webview
                  [OpSetCursorPos (Finite 3) (Finite 4), OpSendScroll (Finite 20) False,
                   OpSetCursorPos (Finite 10.5) (Finite 20.75),
                   OpSetScrollDelta (Finite 0) (Finite (- 1))]))
          (Finite 20) False)) \<and>
   SendMouseInput COREWEBVIEW2_MOUSE_EVENT_KIND_HORIZONTAL_WHEEL 0 6 \<lparr>POINT_x = 10, POINT_y = 20\<rparr>
     \<in> set (snd (SetScrollDelta example_impl
          (fst (run example_impl example_Webview
                  [OpSetCursorPos (Finite 3) (Finite 4), OpSendScroll (Finite 20) False,
                   OpSetCursorPos (Finite 10.5) (Finite 20.75),
                   OpSetScrollDelta (Finite 0) (Finite (- 1))]))
          (Finite 1) (Finite 0))) \<and>
   recorded_pos example_impl (last_cursor_pos example_Webview)
     [OpSetCursorPos (Finite 3) (Finite 4), OpSendScroll (Finite 20) False,
      OpSetCursorPos (Finite 10.5) (Finite 20.75), OpSetScrollDelta (Finite 0) (Finite (- 1))]
     = \<lparr>POINT_x = 10, POINT_y = 20\<rparr>"
  using last_cursor_pos_anchors_input
          [of example_impl example_Webview
              "[OpSetCursorPos (Finite 3) (Finite 4), OpSendScroll (Finite 20) False,
                OpSetCursorPos (Finite 10.5) (Finite 20.75),
                OpSetScrollDelta (Finite 0) (Finite (- 1))]"
              Primary True "Finite 20" False "Finite 1" "Finite 0"]
  by (simp add: example_Webview_def example_impl_def SetCursorPos_def SendScroll_def
      SetScrollDelta_def SetPointerButtonState_def Let_def static_cast_LONG_def
      static_cast_short_def kScrollMultiplier_def trunc_def
      ne_zero_def state_def set_isLeftButtonDown_def set_key_def
      COREWEBVIEW2_MOUSE_EVENT_VIRTUAL_KEYS_LEFT_BUTTON_def
      COREWEBVIEW2_MOUSE_EVENT_VIRTUAL_KEYS_NONE_def)

subsection \<open>Event handlers\<close>

text \<open>
  C6. The handlers of the native load-state and focus events return \<^verbatim>\<open>S_OK\<close> and hand
  the event to the host with a translated value: the \<^verbatim>\<open>ContentLoading\<close> handler calls
  the loading-state callback with \<open>Loading\<close>, the \<^verbatim>\<open>NavigationCompleted\<close> handler
  calls it with \<open>NavigationCompleted\<close>, the \<^verbatim>\<open>GotFocus\<close> handler calls the focus
  callback with \<open>True\<close> and the \<^verbatim>\<open>LostFocus\<close> handler calls it with \<open>False\<close>; that
  one call is all a handler does when its callback is set.
\<close>

theorem load_and_focus_handlers_translate:
  "ContentLoading_handler w =
     Inr (S_OK, if loading_state_changed_callback w
                then [loading_state_changed Loading] else []) \<and>
   NavigationCompleted_handler w =
     Inr (S_OK, if loading_state_changed_callback w
                then [loading_state_changed NavigationCompleted] else []) \<and>
   GotFocus_handler w =
     Inr (S_OK, if focus_changed_callback w then [focus_changed True] else []) \<and>
   LostFocus_handler w =
     Inr (S_OK, if focus_changed_callback w then [focus_changed False] else [])"
  by (simp add: ContentLoading_handler_def NavigationCompleted_handler_def
      GotFocus_handler_def LostFocus_handler_def invoke_def)

text \<open>
  C8. Each of the seven handlers (content loading, navigation completed, source
  changed, title changed, cursor changed, got focus, lost focus), when its host
  callback is unset, returns \<^verbatim>\<open>S_OK\<close> and makes no call at all; and no handler, in any
  state of the object, ends in the exception of calling an empty callback.
\<close>

theorem handlers_guard_unset_callbacks:
  "(\<not> loading_state_changed_callback w \<longrightarrow> ContentLoading_handler w = Inr (S_OK, [])) \<and>
   (\<not> loading_state_changed_callback w \<longrightarrow> NavigationCompleted_handler w = Inr (S_OK, [])) \<and>
   (\<not> url_changed_callback w \<longrightarrow> SourceChanged_handler env w = Inr (S_OK, [])) \<and>
   (\<not> document_title_changed_callback w \<longrightarrow>
      DocumentTitleChanged_handler env w = Inr (S_OK, [])) \<and>
   (\<not> cursor_changed_callback w \<longrightarrow> CursorChanged_handler env w = Inr (S_OK, [])) \<and>
   (\<not> focus_changed_callback w \<longrightarrow> GotFocus_handler w = Inr (S_OK, [])) \<and>
   (\<not> focus_changed_callback w \<longrightarrow> LostFocus_handler w = Inr (S_OK, [])) \<and>
   \<not> isl (ContentLoading_handler w) \<and>
   \<not> isl (NavigationCompleted_handler w) \<and>
   \<not> isl (SourceChanged_handler env w) \<and>
   \<not> isl (DocumentTitleChanged_handler env w) \<and>
   \<not> isl (CursorChanged_handler env w) \<and>
   \<not> isl (GotFocus_handler w) \<and>
   \<not> isl (LostFocus_handler w)"
  by (simp add: ContentLoading_handler_def NavigationCompleted_handler_def
      SourceChanged_handler_def DocumentTitleChanged_handler_def CursorChanged_handler_def
      GotFocus_handler_def LostFocus_handler_def invoke_def)

theorem handlers_guard_unset_callbacks_witness:
  "\<not> loading_state_changed_callback example_Webview \<and>
   \<not> url_changed_callback example_Webview \<and>
   \<not> document_title_changed_callback example_Webview \<and>
   \<not> cursor_changed_callback example_Webview \<and>
   \<not> focus_changed_callback example_Webview \<and>
   ContentLoading_handler example_Webview = Inr (0, []) \<and>
   NavigationCompleted_handler example_Webview = Inr (0, []) \<and>
   SourceChanged_handler example_env example_Webview = Inr (0, []) \<and>
   DocumentTitleChanged_handler example_env example_Webview = Inr (0, []) \<and>
   CursorChanged_handler example_env example_Webview = Inr (0, []) \<and>
   GotFocus_handler example_Webview = Inr (0, []) \<and>
   LostFocus_handler example_Webview = Inr (0, [])"
proof -
  have unset: "\<not> loading_state_changed_callback example_Webview"
    "\<not> url_changed_callback example_Webview"
    "\<not> document_title_changed_callback example_Webview"
    "\<not> cursor_changed_callback example_Webview"
    "\<not> focus_changed_callback example_Webview"
    by (simp_all add: example_Webview_def)
  show ?thesis
    using handlers_guard_unset_callbacks [of example_Webview example_env] unset
    by (simp add: S_OK_def)
qed

subsection \<open>Results of native calls\<close>

text \<open>
  C2, as the code has it. With a surface present, when \<^verbatim>\<open>put_Bounds\<close> does not return
  \<^verbatim>\<open>S_OK\<close>, \<^verbatim>\<open>SetSurfaceSize\<close> writes a line to \<^verbatim>\<open>std::cerr\<close> and goes on as after a
  success: it still calls the surface-size-changed callback, when one is set, with the
  width and the height. The method has no result, so the failure does not reach the
  host.
\<close>

theorem SetSurfaceSize_bounds_failure_absorbed:
  "surface w \<Longrightarrow>
   put_Bounds env \<lparr>RECT_left = 0, RECT_top = 0,
                   RECT_right = ucast width, RECT_bottom = ucast height\<rparr> \<noteq> S_OK \<Longrightarrow>
   SetSurfaceSize impl env w width height =
     Inr ([Visual_Size (size_to_float impl width) (size_to_float impl height),
           Call_put_Bounds \<lparr>RECT_left = 0, RECT_top = 0,
                            RECT_right = ucast width, RECT_bottom = ucast height\<rparr>,
           Cerr ''Setting webview bounds failed.''] @
          (if surface_size_changed_callback w then [surface_size_changed width height] else []))"
  by (simp add: SetSurfaceSize_def Let_def invoke_def)

theorem SetSurfaceSize_bounds_failure_absorbed_witness:
  "surface example_Webview \<and>
   put_Bounds example_env \<lparr>RECT_left = 0, RECT_top = 0,
                           RECT_right = 1280, RECT_bottom = 720\<rparr> \<noteq> S_OK \<and>
   SetSurfaceSize example_impl example_env example_Webview 1280 720 =
     Inr [Visual_Size 1280 720,
          Call_put_Bounds \<lparr>RECT_left = 0, RECT_top = 0, RECT_right = 1280, RECT_bottom = 720\<rparr>,
          Cerr ''Setting webview bounds failed.'']"
proof -
  have present: "surface example_Webview"
    by (simp add: example_Webview_def)
  have failed: "put_Bounds example_env
      \<lparr>RECT_left = 0, RECT_top = 0, RECT_right = ucast (1280 :: size_t),
       RECT_bottom = ucast (720 :: size_t)\<rparr> \<noteq> S_OK"
    by (simp add: example_env_def E_FAIL_def S_OK_def)
  show ?thesis
    using SetSurfaceSize_bounds_failure_absorbed
            [OF present failed, of example_impl] present failed
    by (simp add: example_impl_def example_Webview_def)
qed

text \<open>
  The claim C2 as stated fails: here \<^verbatim>\<open>put_Bounds\<close> returns \<^verbatim>\<open>E_FAIL\<close>, and the
  surface-size-changed callback is called all the same.
\<close>

theorem SetSurfaceSize_bounds_failure_counterexample:
  "put_Bounds example_env
     \<lparr>RECT_left = 0, RECT_top = 0, RECT_right = 800, RECT_bottom = 600\<rparr> = E_FAIL \<and>
   E_FAIL \<noteq> S_OK \<and>
   SetSurfaceSize example_impl example_env
     (example_Webview\<lparr>surface_size_changed_callback := True\<rparr>) 800 600 =
     Inr [Visual_Size 800 600,
          Call_put_Bounds \<lparr>RECT_left = 0, RECT_top = 0, RECT_right = 800, RECT_bottom = 600\<rparr>,
          Cerr ''Setting webview bounds failed.'',
          surface_size_changed 800 600]"
  by (simp add: SetSurfaceSize_def example_env_def example_impl_def example_Webview_def
      E_FAIL_def S_OK_def invoke_def Let_def)

text \<open>
  C3. \<^verbatim>\<open>ClearCookies\<close> makes the one DevTools-protocol call
  \<^verbatim>\<open>Network.clearBrowserCookies\<close> with the parameters \<^verbatim>\<open>{}\<close> and returns true if and
  only if that call returns \<^verbatim>\<open>S_OK\<close>. \<^verbatim>\<open>SetUserAgent\<close> returns true if and only if the
  extended settings object is there and \<^verbatim>\<open>put_UserAgent\<close> on it, the one call it then
  makes, returns \<^verbatim>\<open>S_OK\<close>; without the settings object it makes no call and returns
  false.
\<close>

theorem ClearCookies_SetUserAgent_result:
  "fst (ClearCookies env) =
     (CallDevToolsProtocolMethod env
        (towstring ''Network.clearBrowserCookies'') (towstring ''{}'') = S_OK) \<and>
   snd (ClearCookies env) =
     [Call_DevToolsProtocolMethod (towstring ''Network.clearBrowserCookies'') (towstring ''{}'')] \<and>
   fst (SetUserAgent env w user_agent) =
     (settings2 w \<and> put_UserAgent env (towstring user_agent) = S_OK) \<and>
   snd (SetUserAgent env w user_agent) =
     (if settings2 w then [Call_put_UserAgent (towstring user_agent)] else [])"
  by (simp add: ClearCookies_def SetUserAgent_def)

end
